theory Spec2Isabelle
  imports Main
begin

section \<open>The Ascnd leaderboard client: configuration, auth interceptor, error conversion\<close>

text \<open>
  A shallow embedding of \<^verbatim>\<open>client.ts\<close> (class \<^verbatim>\<open>AscndClient\<close>) and of the two
  declarations of \<^verbatim>\<open>types.ts\<close> it uses (\<^verbatim>\<open>AscndClientConfig\<close>, \<^verbatim>\<open>AscndError\<close>).

  A rejected promise and a \<^verbatim>\<open>throw\<close> are both the left injection of a sum; the thrown
  value is any JavaScript value. The Connect library, the platform's \<^verbatim>\<open>Headers\<close> class
  and the network are not part of the repository. What is fixed about them is modelled
  as it is documented: the numeric enum \<^verbatim>\<open>Code\<close> of the library, and the
  normalisation and validation of a header value by \<^verbatim>\<open>Headers.set\<close> (Fetch standard).
  What is not fixed is gathered in the record \<open>Runtime\<close> and stays a parameter of every
  definition that reaches it.

  Strings are lists of 8-bit characters: a JavaScript string is one when each of its
  code units is below 256.
\<close>

subsection \<open>Values that can be thrown\<close>

text \<open>
  The catch clauses receive a value of type \<^verbatim>\<open>unknown\<close>. The model has the values that
  \<^verbatim>\<open>convertError\<close> tells apart, among them values whose inspection throws:
  \<^item> \<open>ConnectError message code details\<close>: an instance of the library's
    \<^verbatim>\<open>ConnectError\<close> (a subclass of \<^verbatim>\<open>Error\<close>); \<open>'c\<close> is the library's type
    \<^verbatim>\<open>Code\<close>, \<open>'d\<close> the type of one detail. The source reads the detail list with
    \<^verbatim>\<open>?.\<close>, so the list may be missing (\<open>None\<close>);
  \<^item> \<open>Error message\<close>: any other instance of \<^verbatim>\<open>Error\<close> whose \<^verbatim>\<open>message\<close> reads as the
    given string;
  \<^item> strings, numbers, booleans, \<^verbatim>\<open>undefined\<close>, \<^verbatim>\<open>null\<close>, and plain objects given by
    their own properties;
  \<^item> \<open>ThrowingProxy x\<close>: a \<^verbatim>\<open>Proxy\<close> on which the class test \<^verbatim>\<open>instanceof\<close> throws
    \<open>x\<close>, because its \<^verbatim>\<open>getPrototypeOf\<close> trap does, or because it is revoked (then
    \<open>x\<close> is the engine's \<^verbatim>\<open>TypeError\<close>);
  \<^item> \<open>ThrowingMessage x\<close>: an instance of \<^verbatim>\<open>Error\<close>, no \<^verbatim>\<open>ConnectError\<close>, whose
    property \<^verbatim>\<open>message\<close> is an accessor that throws \<open>x\<close>.
\<close>

datatype ('c, 'd) jsvalue =
    ConnectError string 'c "'d list option"
  | Error string
  | JsString string
  | JsNumber int
  | JsBoolean bool
  | JsUndefined
  | JsNull
  | JsObject "(string \<times> ('c, 'd) jsvalue) list"
  | ThrowingProxy "('c, 'd) jsvalue"
  | ThrowingMessage "('c, 'd) jsvalue"





subsection \<open>The library's error codes\<close>

text \<open>
  \<^verbatim>\<open>ConnectError.code\<close> has the type \<^verbatim>\<open>Code\<close> of the Connect library, a numeric
  TypeScript enum with the gRPC status codes 1 to 16. \<^verbatim>\<open>toString()\<close> on a member is
  \<^verbatim>\<open>Number.prototype.toString\<close>: the decimal numeral of its value.
\<close>

datatype Code =
    Canceled | Unknown | InvalidArgument | DeadlineExceeded | NotFound | AlreadyExists
  | PermissionDenied | ResourceExhausted | FailedPrecondition | Aborted | OutOfRange
  | Unimplemented | Internal | Unavailable | DataLoss | Unauthenticated

fun Code_value :: "Code \<Rightarrow> nat" where
  "Code_value Canceled = 1"
| "Code_value Unknown = 2"
| "Code_value InvalidArgument = 3"
| "Code_value DeadlineExceeded = 4"
| "Code_value NotFound = 5"
| "Code_value AlreadyExists = 6"
| "Code_value PermissionDenied = 7"
| "Code_value ResourceExhausted = 8"
| "Code_value FailedPrecondition = 9"
| "Code_value Aborted = 10"
| "Code_value OutOfRange = 11"
| "Code_value Unimplemented = 12"
| "Code_value Internal = 13"
| "Code_value Unavailable = 14"
| "Code_value DataLoss = 15"
| "Code_value Unauthenticated = 16"

definition digit_char :: "nat \<Rightarrow> char" where
  "digit_char n = ''0123456789'' ! n"

fun decimal :: "nat \<Rightarrow> string" where
  "decimal n =
     (if n < 10 then [digit_char n] else decimal (n div 10) @ [digit_char (n mod 10)])"

declare decimal.simps [simp del]

definition Code_toString :: "Code \<Rightarrow> string" where
  "Code_toString c = decimal (Code_value c)"

subsection \<open>\<^verbatim>\<open>types.ts\<close>: configuration and error class\<close>

text \<open>
  \<^verbatim>\<open>timeout?: number\<close> is a count of milliseconds; the client only passes it on, so it
  is an \<open>int\<close> here, and \<open>None\<close> stands for an option that is \<^verbatim>\<open>undefined\<close> or
  \<^verbatim>\<open>null\<close>.
\<close>

record AscndClientConfig =
  baseUrl :: string
  apiKey :: string
  timeout :: "int option"

text \<open>
  \<^verbatim>\<open>class AscndError extends Error\<close>: \<^verbatim>\<open>details\<close> is an optional
  \<^verbatim>\<open>Record<string, unknown>\<close>; the only record the client ever stores has the one key
  \<^verbatim>\<open>details\<close>, bound to a detail list.
\<close>

record 'd AscndError =
  name :: string
  message :: string
  code :: string
  details :: "(string \<rightharpoonup> 'd list) option"

definition new_AscndError ::
  "string \<Rightarrow> string \<Rightarrow> (string \<rightharpoonup> 'd list) option \<Rightarrow> 'd AscndError" where
  "new_AscndError msg cd ds = \<lparr>name = ''AscndError'', message = msg, code = cd, details = ds\<rparr>"

subsection \<open>Requests, interceptors and the transport\<close>

text \<open>
  The three methods of \<^verbatim>\<open>AscndService\<close>. Request and response messages are the
  generated protobuf classes, which are not inspected by the client: they are the type
  parameters \<open>'m\<close> and \<open>'r\<close>. A request on its way to the network carries the method, a
  \<^verbatim>\<open>Headers\<close> object and the message.

  A \<^verbatim>\<open>Headers\<close> object is the platform's. It holds the entries, a map from header names
  (in lower case) to values, and it words the \<^verbatim>\<open>TypeError\<close> that its method \<^verbatim>\<open>set\<close>
  throws for a value it rejects; the wording differs between platforms and is the field
  \<open>invalidValue\<close>.
\<close>

datatype rpc_method = SubmitScore | GetLeaderboard | GetPlayerRank

record Headers =
  entries :: "string \<rightharpoonup> string"
  invalidValue :: "string \<Rightarrow> string"

text \<open>
  \<^verbatim>\<open>Headers.set(name, value)\<close> (Fetch standard): the value is normalised, that is
  stripped of leading and trailing HTTP whitespace (tab, line feed, carriage return,
  space); a normalised value that contains a NUL, a line feed or a carriage return is
  rejected with a \<^verbatim>\<open>TypeError\<close>; otherwise the entry of the name is replaced.
\<close>

definition http_whitespace :: "char \<Rightarrow> bool" where
  "http_whitespace c = (c = CHR 0x09 \<or> c = CHR 0x0A \<or> c = CHR 0x0D \<or> c = CHR 0x20)"

definition normalize_header_value :: "string \<Rightarrow> string" where
  "normalize_header_value v =
     rev (dropWhile http_whitespace (rev (dropWhile http_whitespace v)))"

definition header_value :: "string \<Rightarrow> bool" where
  "header_value v = (CHR 0x00 \<notin> set v \<and> CHR 0x0A \<notin> set v \<and> CHR 0x0D \<notin> set v)"

definition Headers_set :: "Headers \<Rightarrow> string \<Rightarrow> string \<Rightarrow> ('c, 'd) jsvalue + Headers" where
  "Headers_set h n v =
     (if header_value (normalize_header_value v)
      then Inr (h\<lparr>entries := (entries h)(n \<mapsto> normalize_header_value v)\<rparr>)
      else Inl (Error (invalidValue h v)))"

record 'm UnaryRequest =
  rpc :: rpc_method
  header :: Headers
  payload :: 'm

type_synonym ('m, 'r, 'c, 'd) UnaryFn = "'m UnaryRequest \<Rightarrow> ('c, 'd) jsvalue + 'r"

type_synonym ('m, 'r, 'c, 'd) Interceptor =
  "('m, 'r, 'c, 'd) UnaryFn \<Rightarrow> ('m, 'r, 'c, 'd) UnaryFn"

text \<open>
  The options handed to \<^verbatim>\<open>createGrpcWebTransport\<close>; the transport is described by them.
  The option \<^verbatim>\<open>baseUrl\<close> is the field \<open>targetUrl\<close> here, the name \<open>baseUrl\<close> being the
  field of the configuration.
\<close>

record ('m, 'r, 'c, 'd) GrpcWebTransport =
  targetUrl :: string
  interceptors :: "('m, 'r, 'c, 'd) Interceptor list"
  defaultTimeoutMs :: int




subsection \<open>\<^verbatim>\<open>client.ts\<close>: the constructor\<close>

text \<open>
  \<^verbatim>\<open>(next) => async (req) => { req.header.set("x-api-key", config.apiKey); return await next(req); }\<close>
\<close>

definition authInterceptor :: "string \<Rightarrow> ('m, 'r, 'c, 'd) Interceptor" where
  "authInterceptor key next req =
     (case Headers_set (header req) ''x-api-key'' key of
        Inl e \<Rightarrow> Inl e
      | Inr h \<Rightarrow> next (req\<lparr>header := h\<rparr>))"

text \<open>
  \<^verbatim>\<open>config.baseUrl.replace(/\/$/, "")\<close>: the pattern has no \<^verbatim>\<open>g\<close> and no \<^verbatim>\<open>m\<close> flag and
  matches one \<^verbatim>\<open>/\<close> that is the last character of the string.
\<close>

definition replace_trailing_slash :: "string \<Rightarrow> string" where
  "replace_trailing_slash s = (if s \<noteq> [] \<and> last s = CHR ''/'' then butlast s else s)"

text \<open>
  The object holds the client made by \<^verbatim>\<open>createClient(AscndService, transport)\<close>, which is
  determined by the transport. A non-empty string is the only truthy string, so
  \<^verbatim>\<open>!config.baseUrl\<close> is the test for the empty string.
\<close>

record ('m, 'r, 'c, 'd) AscndClient =
  transport :: "('m, 'r, 'c, 'd) GrpcWebTransport"

definition new_AscndClient ::
  "AscndClientConfig \<Rightarrow> ('c, 'd) jsvalue + ('m, 'r, 'c, 'd) AscndClient" where
  "new_AscndClient config =
     (if baseUrl config = [] then Inl (Error ''baseUrl is required'')
      else if apiKey config = [] then Inl (Error ''apiKey is required'')
      else Inr \<lparr>transport =
        \<lparr>targetUrl = replace_trailing_slash (baseUrl config),
         interceptors = [authInterceptor (apiKey config)],
         defaultTimeoutMs = (case timeout config of None \<Rightarrow> 30000 | Some t \<Rightarrow> t)\<rparr>\<rparr>)"

subsection \<open>\<^verbatim>\<open>client.ts\<close>: error conversion and the three operations\<close>

text \<open>
  \<^verbatim>\<open>convertError\<close> returns an \<^verbatim>\<open>AscndError\<close> (\<open>Inr\<close>) or throws what the inspection of
  its argument throws (\<open>Inl\<close>): the first class test on a \<open>ThrowingProxy\<close>, the read of
  \<^verbatim>\<open>message\<close> in the second branch on a \<open>ThrowingMessage\<close>.
\<close>

fun convertError ::
  "('c \<Rightarrow> string) \<Rightarrow> ('c, 'd) jsvalue \<Rightarrow> ('c, 'd) jsvalue + 'd AscndError" where
  "convertError toStr (ThrowingProxy x) = Inl x"
| "convertError toStr (ConnectError msg c ds) =
     Inr (new_AscndError msg (toStr c)
       (case ds of
          None \<Rightarrow> None
        | Some l \<Rightarrow> if length l \<noteq> 0 then Some [''details'' \<mapsto> l] else None))"
| "convertError toStr (ThrowingMessage x) = Inl x"
| "convertError toStr (Error msg) = Inr (new_AscndError msg ''UNKNOWN'' None)"
| "convertError toStr v = Inr (new_AscndError ''Unknown error occurred'' ''UNKNOWN'' None)"




subsection \<open>Sample runtimes and a sample client\<close>






section \<open>Auxiliary facts\<close>


lemma replace_trailing_slash_snoc: "replace_trailing_slash (s @ ''/'') = s"
  by (simp add: replace_trailing_slash_def)

lemma replace_trailing_slash_id:
  "s = [] \<or> last s \<noteq> CHR ''/'' \<Longrightarrow> replace_trailing_slash s = s"
  by (auto simp add: replace_trailing_slash_def)

lemma new_AscndClient_valid:
  "baseUrl config \<noteq> [] \<Longrightarrow> apiKey config \<noteq> [] \<Longrightarrow>
   new_AscndClient config = Inr \<lparr>transport =
     \<lparr>targetUrl = replace_trailing_slash (baseUrl config),
      interceptors = [authInterceptor (apiKey config)],
      defaultTimeoutMs = (case timeout config of None \<Rightarrow> 30000 | Some t \<Rightarrow> t)\<rparr>\<rparr>"
  by (simp add: new_AscndClient_def)








lemma Code_toString_NotFound: "Code_toString NotFound = ''5''"
  by (simp add: Code_toString_def decimal.simps digit_char_def)




section \<open>Error conversion\<close>

text \<open>
  C1 (as stated, refuted). The code of the \<^verbatim>\<open>AscndError\<close> made from a not-found
  \<^verbatim>\<open>ConnectError\<close> is \<open>''5''\<close>, the numeral of \<^verbatim>\<open>Code.NotFound\<close>, not a token such as
  \<^verbatim>\<open>NOT_FOUND\<close>.
\<close>

theorem convertError_NotFound_counterexample:
  "convertError Code_toString
     (ConnectError ''no such leaderboard'' NotFound (Some []) :: (Code, unit) jsvalue) =
   Inr \<lparr>name = ''AscndError'', message = ''no such leaderboard'', code = ''5'',
        details = None\<rparr>"
  by (simp add: new_AscndError_def Code_toString_NotFound)

text \<open>
  C1 (amended). A \<^verbatim>\<open>ConnectError\<close> is converted to an \<^verbatim>\<open>AscndError\<close> with the same
  message, with the decimal numeral of the error's numeric code as code (\<open>''5''\<close> for a
  not-found error), and with \<^verbatim>\<open>{details: error.details}\<close> as details when the detail
  list is non-empty; the details are absent when the list is empty (or missing).
\<close>

theorem convertError_ConnectError:
  "convertError Code_toString (ConnectError msg c ds) =
     Inr \<lparr>name = ''AscndError'', message = msg, code = decimal (Code_value c),
          details = (if ds = None \<or> ds = Some [] then None
                     else Some [''details'' \<mapsto> the ds])\<rparr>
   \<and> decimal (Code_value NotFound) = ''5''"
  using Code_toString_NotFound
  by (cases ds) (simp_all add: new_AscndError_def Code_toString_def)

text \<open>
  C7. Any other \<^verbatim>\<open>Error\<close> instance (the generic failure object of the specification,
  for example \<^verbatim>\<open>new Error("boom")\<close>) is converted to an \<^verbatim>\<open>AscndError\<close> with the same
  message and the code \<^verbatim>\<open>UNKNOWN\<close>, without details.
\<close>

theorem convertError_Error:
  "convertError toStr (Error msg) =
     Inr \<lparr>name = ''AscndError'', message = msg, code = ''UNKNOWN'', details = None\<rparr>"
  by (simp add: new_AscndError_def)




text \<open>
  C9. The branch is chosen by the class of the value, not by the presence of a message:
  an \<^verbatim>\<open>Error\<close> with the empty message is converted to an \<^verbatim>\<open>AscndError\<close> with the empty
  message and code \<^verbatim>\<open>UNKNOWN\<close>; an \<^verbatim>\<open>Error\<close> and a \<^verbatim>\<open>ConnectError\<close> keep their own message; and a
  plain object that has a \<^verbatim>\<open>message\<close> property, being no \<^verbatim>\<open>Error\<close> instance, gets the
  fallback message.
\<close>

theorem convertError_dispatch_on_class:
  "convertError toStr (Error []) =
     Inr \<lparr>name = ''AscndError'', message = [], code = ''UNKNOWN'', details = None\<rparr>
   \<and> (\<exists>e. convertError toStr (Error msg) = Inr e \<and> message e = msg)
   \<and> (\<exists>e. convertError toStr (ConnectError msg c ds) = Inr e \<and> message e = msg)
   \<and> convertError toStr (JsObject [(''message'', JsString ''boom'')]) =
       Inr \<lparr>name = ''AscndError'', message = ''Unknown error occurred'', code = ''UNKNOWN'',
            details = None\<rparr>"
  by (simp add: new_AscndError_def)

section \<open>Construction\<close>

text \<open>
  C2. With an empty \<^verbatim>\<open>baseUrl\<close> or an empty \<^verbatim>\<open>apiKey\<close> the constructor throws (the
  configuration error of the specification is a plain \<^verbatim>\<open>Error\<close>, "baseUrl is required"
  or "apiKey is required"). The throw is the result of the constructor itself: no client
  exists afterwards, and the constructor has no access to the exchange with the service,
  which only \<open>unary\<close> reaches.
\<close>

theorem new_AscndClient_empty_config:
  assumes "baseUrl config = [] \<or> apiKey config = []"
  shows "new_AscndClient config =
           Inl (Error (if baseUrl config = [] then ''baseUrl is required''
                       else ''apiKey is required''))"
  using assms by (auto simp add: new_AscndClient_def)

theorem new_AscndClient_empty_config_witness:
  "(baseUrl \<lparr>baseUrl = [], apiKey = ''key'', timeout = None\<rparr> = []
      \<or> apiKey \<lparr>baseUrl = [], apiKey = ''key'', timeout = None\<rparr> = [])
   \<and> (new_AscndClient \<lparr>baseUrl = [], apiKey = ''key'', timeout = None\<rparr>
         :: (unit, unit) jsvalue + (unit, unit, unit, unit) AscndClient) =
       Inl (Error ''baseUrl is required'')
   \<and> (baseUrl \<lparr>baseUrl = ''https://api.ascnd.gg'', apiKey = [], timeout = Some 500\<rparr> = []
      \<or> apiKey \<lparr>baseUrl = ''https://api.ascnd.gg'', apiKey = [], timeout = Some 500\<rparr> = [])
   \<and> (new_AscndClient \<lparr>baseUrl = ''https://api.ascnd.gg'', apiKey = [], timeout = Some 500\<rparr>
         :: (unit, unit) jsvalue + (unit, unit, unit, unit) AscndClient) =
       Inl (Error ''apiKey is required'')"
  using new_AscndClient_empty_config
      [of "\<lparr>baseUrl = [], apiKey = ''key'', timeout = None\<rparr>"]
    new_AscndClient_empty_config
      [of "\<lparr>baseUrl = ''https://api.ascnd.gg'', apiKey = [], timeout = Some 500\<rparr>"]
  by simp

text \<open>
  C5 (as stated, refuted). An endpoint ending in two slashes gives a target that still
  ends in a slash.
\<close>

theorem target_two_slashes_counterexample:
  "(new_AscndClient \<lparr>baseUrl = ''https://api.ascnd.gg//'', apiKey = ''key'', timeout = None\<rparr>
      :: (unit, unit) jsvalue + (unit, unit, unit, unit) AscndClient) =
   Inr \<lparr>transport = \<lparr>targetUrl = ''https://api.ascnd.gg/'',
                       interceptors = [authInterceptor ''key''],
                       defaultTimeoutMs = 30000\<rparr>\<rparr>"
  by (simp add: new_AscndClient_def replace_trailing_slash_def)

text \<open>
  C5 (amended). For a valid configuration the transport targets \<^verbatim>\<open>baseUrl\<close> without its
  last character when that is a slash, and \<^verbatim>\<open>baseUrl\<close> unchanged otherwise: one trailing
  slash is removed, not all of them. The target ends in a slash exactly when
  \<^verbatim>\<open>baseUrl\<close> ends in two.
\<close>

theorem target_one_trailing_slash_removed:
  assumes "baseUrl config \<noteq> []" and "apiKey config \<noteq> []"
  shows "\<exists>this. (new_AscndClient config
             :: ('c, 'd) jsvalue + ('m, 'r, 'c, 'd) AscndClient) = Inr this
           \<and> targetUrl (transport this) =
               (if last (baseUrl config) = CHR ''/'' then butlast (baseUrl config)
                else baseUrl config)
           \<and> ((targetUrl (transport this) \<noteq> [] \<and> last (targetUrl (transport this)) = CHR ''/'')
                = (\<exists>s. baseUrl config = s @ ''//''))"
proof -
  let ?b = "baseUrl config"
  have url: "replace_trailing_slash ?b = (if last ?b = CHR ''/'' then butlast ?b else ?b)"
    using assms(1) by (simp add: replace_trailing_slash_def)
  have ends: "(replace_trailing_slash ?b \<noteq> [] \<and> last (replace_trailing_slash ?b) = CHR ''/'')
                = (\<exists>s. ?b = s @ ''//'')"
  proof (cases ?b rule: rev_cases)
    case Nil
    then show ?thesis using assms(1) by simp
  next
    case (snoc s x)
    show ?thesis
    proof (cases "x = CHR ''/''")
      case True
      with snoc have b: "?b = s @ ''/''" by simp
      have "(s \<noteq> [] \<and> last s = CHR ''/'') = (\<exists>t. s = t @ ''/'')"
        by (cases s rule: rev_cases) auto
      then show ?thesis
        by (simp add: b replace_trailing_slash_snoc)
    next
      case False
      with snoc have "replace_trailing_slash ?b = ?b"
        by (simp add: replace_trailing_slash_id)
      with snoc False show ?thesis by simp
    qed
  qed
  show ?thesis
    using url ends by (simp add: new_AscndClient_valid [OF assms])
qed

theorem target_one_trailing_slash_removed_witness:
  "baseUrl \<lparr>baseUrl = ''https://api.ascnd.gg/'', apiKey = ''key'', timeout = None\<rparr> \<noteq> []
   \<and> apiKey \<lparr>baseUrl = ''https://api.ascnd.gg/'', apiKey = ''key'', timeout = None\<rparr> \<noteq> []
   \<and> (\<exists>this. (new_AscndClient
                  \<lparr>baseUrl = ''https://api.ascnd.gg/'', apiKey = ''key'', timeout = None\<rparr>
                :: (unit, unit) jsvalue + (unit, unit, unit, unit) AscndClient) = Inr this
          \<and> targetUrl (transport this) = ''https://api.ascnd.gg'')"
  using target_one_trailing_slash_removed
      [of "\<lparr>baseUrl = ''https://api.ascnd.gg/'', apiKey = ''key'', timeout = None\<rparr>"]
  by auto

text \<open>
  C6. For a valid configuration without a timeout the transport's default timeout per
  call is 30000 ms; a supplied timeout is the transport's default timeout.
\<close>

theorem default_timeout:
  assumes "baseUrl config \<noteq> []" and "apiKey config \<noteq> []"
  shows "\<exists>this. (new_AscndClient config
             :: ('c, 'd) jsvalue + ('m, 'r, 'c, 'd) AscndClient) = Inr this
           \<and> defaultTimeoutMs (transport this) =
               (case timeout config of None \<Rightarrow> 30000 | Some t \<Rightarrow> t)"
  by (simp add: new_AscndClient_valid [OF assms])

theorem default_timeout_witness:
  "baseUrl \<lparr>baseUrl = ''https://api.ascnd.gg'', apiKey = ''key'', timeout = None\<rparr> \<noteq> []
   \<and> apiKey \<lparr>baseUrl = ''https://api.ascnd.gg'', apiKey = ''key'', timeout = None\<rparr> \<noteq> []
   \<and> (\<exists>this. (new_AscndClient
                  \<lparr>baseUrl = ''https://api.ascnd.gg'', apiKey = ''key'', timeout = None\<rparr>
                :: (unit, unit) jsvalue + (unit, unit, unit, unit) AscndClient) = Inr this
          \<and> defaultTimeoutMs (transport this) = 30000)
   \<and> (\<exists>this. (new_AscndClient
                  \<lparr>baseUrl = ''https://api.ascnd.gg'', apiKey = ''key'', timeout = Some 5000\<rparr>
                :: (unit, unit) jsvalue + (unit, unit, unit, unit) AscndClient) = Inr this
          \<and> defaultTimeoutMs (transport this) = 5000)"
  using default_timeout
      [of "\<lparr>baseUrl = ''https://api.ascnd.gg'', apiKey = ''key'', timeout = None\<rparr>"]
    default_timeout
      [of "\<lparr>baseUrl = ''https://api.ascnd.gg'', apiKey = ''key'', timeout = Some 5000\<rparr>"]
  by auto

text \<open>
  C10. The default applies only to a missing timeout (\<^verbatim>\<open>??\<close>): a supplied number is
  the transport's default timeout whatever its value, zero and negative numbers
  included; the constructor does not validate it.
\<close>

theorem supplied_timeout_passed_through:
  assumes "baseUrl config \<noteq> []" and "apiKey config \<noteq> []" and "timeout config = Some t"
  shows "\<exists>this. (new_AscndClient config
             :: ('c, 'd) jsvalue + ('m, 'r, 'c, 'd) AscndClient) = Inr this
           \<and> defaultTimeoutMs (transport this) = t"
  using assms(3) by (simp add: new_AscndClient_valid [OF assms(1,2)])

theorem supplied_timeout_passed_through_witness:
  "baseUrl \<lparr>baseUrl = ''https://api.ascnd.gg'', apiKey = ''key'', timeout = Some 0\<rparr> \<noteq> []
   \<and> apiKey \<lparr>baseUrl = ''https://api.ascnd.gg'', apiKey = ''key'', timeout = Some 0\<rparr> \<noteq> []
   \<and> timeout \<lparr>baseUrl = ''https://api.ascnd.gg'', apiKey = ''key'', timeout = Some 0\<rparr> = Some 0
   \<and> (\<exists>this. (new_AscndClient
                  \<lparr>baseUrl = ''https://api.ascnd.gg'', apiKey = ''key'', timeout = Some 0\<rparr>
                :: (unit, unit) jsvalue + (unit, unit, unit, unit) AscndClient) = Inr this
          \<and> defaultTimeoutMs (transport this) = 0)
   \<and> timeout \<lparr>baseUrl = ''https://api.ascnd.gg'', apiKey = ''key'', timeout = Some (- 250)\<rparr>
       = Some (- 250)
   \<and> (\<exists>this. (new_AscndClient
                  \<lparr>baseUrl = ''https://api.ascnd.gg'', apiKey = ''key'', timeout = Some (- 250)\<rparr>
                :: (unit, unit) jsvalue + (unit, unit, unit, unit) AscndClient) = Inr this
          \<and> defaultTimeoutMs (transport this) = - 250)"
  using supplied_timeout_passed_through
      [of "\<lparr>baseUrl = ''https://api.ascnd.gg'', apiKey = ''key'', timeout = Some 0\<rparr>" 0]
    supplied_timeout_passed_through
      [of "\<lparr>baseUrl = ''https://api.ascnd.gg'', apiKey = ''key'', timeout = Some (- 250)\<rparr>"
        "- 250"]
  by auto

section \<open>Calls\<close>







end
